theory Spec2Isabelle
  imports Main "HOL-Library.AList"
begin

section \<open>Exceptions and fallible computations\<close>

text \<open>
  The scraper is Python. Every \<^verbatim>\<open>raise\<close> of the source, and every failure of a
  library call it makes, is a value of \<open>exn\<close>. Only subclasses of \<^verbatim>\<open>Exception\<close>
  are represented, which is what the handlers \<^verbatim>\<open>except Exception\<close> of the source
  catch; asynchronous interrupts (\<^verbatim>\<open>KeyboardInterrupt\<close>) are outside the model.
  \<open>RequestException\<close> stands for \<^verbatim>\<open>requests.exceptions.RequestException\<close> and its
  subclasses (\<^verbatim>\<open>HTTPError\<close>, \<^verbatim>\<open>ConnectionError\<close>, \<^verbatim>\<open>RetryError\<close>),
  \<open>WebDriverException\<close> for the exceptions of the browser driver.
\<close>

datatype exn =
    RequestException
  | WebDriverException
  | TypeError
  | KeyError
  | AttributeError
  | ValueError
  | IndexError

text \<open>A pure computation that may raise: \<open>Inl\<close> is the exception.\<close>

definition bind_e :: "exn + 'a \<Rightarrow> ('a \<Rightarrow> exn + 'b) \<Rightarrow> exn + 'b" where
  "bind_e r f = (case r of Inl e \<Rightarrow> Inl e | Inr a \<Rightarrow> f a)"

text \<open>
  A computation on the outside world (network and browser): it takes the state of the
  world and returns an exception or a value, with the state the world is left in.
\<close>

type_synonym ('a, 'w) run = "'w \<Rightarrow> (exn + 'a) \<times> 'w"

definition unit_m :: "'a \<Rightarrow> ('a, 'w) run" where
  "unit_m a = (\<lambda>w. (Inr a, w))"

definition lift_m :: "exn + 'a \<Rightarrow> ('a, 'w) run" where
  "lift_m r = (\<lambda>w. (r, w))"

definition bind_m :: "('a, 'w) run \<Rightarrow> ('a \<Rightarrow> ('b, 'w) run) \<Rightarrow> ('b, 'w) run" where
  "bind_m m f = (\<lambda>w. case m w of (Inl e, w') \<Rightarrow> (Inl e, w') | (Inr a, w') \<Rightarrow> f a w')"

text \<open>\<^verbatim>\<open>try: m  except ... as e: h e\<close>\<close>

definition catch_m :: "('a, 'w) run \<Rightarrow> (exn \<Rightarrow> ('a, 'w) run) \<Rightarrow> ('a, 'w) run" where
  "catch_m m h = (\<lambda>w. case m w of (Inl e, w') \<Rightarrow> h e w' | (Inr a, w') \<Rightarrow> (Inr a, w'))"

text \<open>A list comprehension \<^verbatim>\<open>[f(x) for x in xs]\<close> whose body has effects.\<close>

fun map_m :: "('a \<Rightarrow> ('b, 'w) run) \<Rightarrow> 'a list \<Rightarrow> ('b list, 'w) run" where
  "map_m f [] = unit_m []"
| "map_m f (x # xs) = bind_m (f x) (\<lambda>y. bind_m (map_m f xs) (\<lambda>ys. unit_m (y # ys)))"

section \<open>Python strings and integers\<close>

text \<open>
  Text is a list of code points below 256. \<open>isspace\<close> is \<^verbatim>\<open>str.isspace\<close> there:
  the characters 9 to 13, 28 to 32, 133 and 160.
\<close>

definition isspace :: "char \<Rightarrow> bool" where
  "isspace c = (let n = (of_char c :: nat)
                in (9 \<le> n \<and> n \<le> 13) \<or> (28 \<le> n \<and> n \<le> 32) \<or> n = 133 \<or> n = 160)"

definition isdigit :: "char \<Rightarrow> bool" where
  "isdigit c = (let n = (of_char c :: nat) in 48 \<le> n \<and> n \<le> 57)"

definition digit_val :: "char \<Rightarrow> int" where
  "digit_val c = int (of_char c) - 48"

text \<open>\<^verbatim>\<open>s.split()\<close>: the maximal runs of non-space characters, in order.\<close>

fun split_from :: "string \<Rightarrow> string \<Rightarrow> string list" where
  "split_from tok [] = (if tok = [] then [] else [tok])"
| "split_from tok (c # cs) =
     (if isspace c then (if tok = [] then split_from [] cs else tok # split_from [] cs)
      else split_from (tok @ [c]) cs)"

definition py_split :: "string \<Rightarrow> string list" where
  "py_split s = split_from [] s"

text \<open>\<^verbatim>\<open>s.replace("$", "")\<close>\<close>

definition replace_dollar :: "string \<Rightarrow> string" where
  "replace_dollar s = filter (\<lambda>c. c \<noteq> CHR ''$'') s"

text \<open>
  The whitespace that \<^verbatim>\<open>int(s)\<close> drops around a literal is narrower than
  \<^verbatim>\<open>str.isspace\<close>. Of the ASCII characters it is 9 to 13 and 32 only: the separators
  28 to 31 stay, and make the literal invalid. The characters 133 and 160, which are
  not ASCII, are turned into spaces before the literal is read, and so are dropped too.
\<close>

definition int_space :: "char \<Rightarrow> bool" where
  "int_space c = (let n = (of_char c :: nat)
                  in (9 \<le> n \<and> n \<le> 13) \<or> n = 32 \<or> n = 133 \<or> n = 160)"

definition int_strip :: "string \<Rightarrow> string" where
  "int_strip s = rev (dropWhile int_space (rev (dropWhile int_space s)))"

text \<open>
  The digits of a decimal literal as \<^verbatim>\<open>int\<close> reads them: at least one digit, and single
  underscores allowed between digits. The flag says that the previous character was a
  digit.
\<close>

fun parse_digits :: "bool \<Rightarrow> int \<Rightarrow> string \<Rightarrow> int option" where
  "parse_digits prev acc [] = (if prev then Some acc else None)"
| "parse_digits prev acc (c # cs) =
     (if isdigit c then parse_digits True (10 * acc + digit_val c) cs
      else if c = CHR ''_'' \<and> prev then parse_digits False acc cs
      else None)"

text \<open>
  \<^verbatim>\<open>int(s)\<close> for a string: the whitespace around the literal is dropped, one sign is
  allowed, and anything else that is not a decimal literal raises \<^verbatim>\<open>ValueError\<close>.
  Python's integers are unbounded. The interpreter also refuses, with
  \<^verbatim>\<open>ValueError\<close>, a literal of more digits than \<^verbatim>\<open>sys.get_int_max_str_digits()\<close>
  (4300 unless configured otherwise, and no limit when set to 0); that setting of the
  interpreter is not part of the program, and \<open>py_int\<close> is \<^verbatim>\<open>int\<close> without it.
  Statements about the numbers of a product are made for texts of at most 4300
  characters, where the limit cannot apply.
\<close>

definition py_int :: "string \<Rightarrow> exn + int" where
  "py_int s =
     (case int_strip s of
        [] \<Rightarrow> Inl ValueError
      | c # cs \<Rightarrow>
          (if c = CHR ''-'' then
             (case parse_digits False 0 cs of None \<Rightarrow> Inl ValueError | Some n \<Rightarrow> Inr (- n))
           else if c = CHR ''+'' then
             (case parse_digits False 0 cs of None \<Rightarrow> Inl ValueError | Some n \<Rightarrow> Inr n)
           else
             (case parse_digits False 0 (c # cs) of None \<Rightarrow> Inl ValueError | Some n \<Rightarrow> Inr n)))"

text \<open>\<^verbatim>\<open>xs[i]\<close>: a negative index counts from the end, an index out of range raises.\<close>

definition py_index :: "'a list \<Rightarrow> int \<Rightarrow> exn + 'a" where
  "py_index xs i =
     (if 0 \<le> i then
        (if nat i < length xs then Inr (xs ! nat i) else Inl IndexError)
      else
        (if nat (- i) \<le> length xs then Inr (xs ! (length xs - nat (- i)))
         else Inl IndexError))"

text \<open>\<^verbatim>\<open>str(n)\<close> for a natural number: its decimal digits.\<close>

definition digit_char :: "nat \<Rightarrow> char" where
  "digit_char d = char_of (48 + d)"

fun str_nat :: "nat \<Rightarrow> string" where
  "str_nat n = (if n < 10 then [digit_char n] else str_nat (n div 10) @ [digit_char (n mod 10)])"

declare str_nat.simps [simp del]

section \<open>The parse tree of a page\<close>

text \<open>
  A page as BeautifulSoup holds it: a tree of tags with their attributes and of text
  nodes. Nodes that neither a selector nor \<^verbatim>\<open>.text\<close> sees (comments, the doctype) are
  left out. The attributes are the items of the tag's \<^verbatim>\<open>attrs\<close> dictionary.
\<close>

datatype node =
    Tag (name: string) (attrs: "(string \<times> string) list") (contents: "node list")
  | NavigableString string

text \<open>\<^verbatim>\<open>tag.text\<close>: the text nodes below the tag, concatenated in document order.\<close>

fun text_of :: "node \<Rightarrow> string" where
  "text_of (NavigableString s) = s"
| "text_of (Tag n a cs) = concat (map text_of cs)"

text \<open>The nodes below a node in document order, the node itself excluded.\<close>

fun descendants :: "node \<Rightarrow> node list" where
  "descendants (NavigableString s) = []"
| "descendants (Tag n a cs) = concat (map (\<lambda>c. c # descendants c) cs)"

text \<open>
  The three forms of CSS selector the source uses: a class (\<^verbatim>\<open>.title\<close>), the presence
  of an attribute (\<^verbatim>\<open>[data-rating]\<close>) and a tag name (\<^verbatim>\<open>li\<close>). The \<^verbatim>\<open>class\<close>
  attribute is a whitespace-separated list of class names.
\<close>

datatype selector = Class string | HasAttr string | TagName string

fun matches :: "selector \<Rightarrow> node \<Rightarrow> bool" where
  "matches sel (NavigableString s) = False"
| "matches (Class c) (Tag n a cs) =
     (case map_of a ''class'' of None \<Rightarrow> False | Some v \<Rightarrow> c \<in> set (py_split v))"
| "matches (HasAttr k) (Tag n a cs) = (map_of a k \<noteq> None)"
| "matches (TagName t) (Tag n a cs) = (n = t)"

text \<open>\<^verbatim>\<open>tag.select(sel)\<close>: the matching descendants in document order.\<close>

definition select :: "selector \<Rightarrow> node \<Rightarrow> node list" where
  "select sel nd = filter (matches sel) (descendants nd)"

text \<open>\<^verbatim>\<open>tag.select_one(sel)\<close>: the first match, or \<^verbatim>\<open>None\<close>.\<close>

definition select_one :: "selector \<Rightarrow> node \<Rightarrow> node option" where
  "select_one sel nd = (case select sel nd of [] \<Rightarrow> None | x # _ \<Rightarrow> Some x)"

text \<open>
  \<^verbatim>\<open>x[key]\<close> on the result of \<^verbatim>\<open>select_one\<close>: \<^verbatim>\<open>None\<close> is not subscriptable
  (\<^verbatim>\<open>TypeError\<close>), and a tag without the attribute raises \<^verbatim>\<open>KeyError\<close>.
\<close>

fun getitem :: "node option \<Rightarrow> string \<Rightarrow> exn + string" where
  "getitem None key = Inl TypeError"
| "getitem (Some (NavigableString s)) key = Inl TypeError"
| "getitem (Some (Tag n a cs)) key =
     (case map_of a key of None \<Rightarrow> Inl KeyError | Some v \<Rightarrow> Inr v)"

text \<open>\<^verbatim>\<open>x.text\<close> on the result of \<^verbatim>\<open>select_one\<close>: \<^verbatim>\<open>None\<close> has no attribute \<^verbatim>\<open>text\<close>.\<close>

fun get_text :: "node option \<Rightarrow> exn + string" where
  "get_text None = Inl AttributeError"
| "get_text (Some nd) = Inr (text_of nd)"

section \<open>The listing parser\<close>

text \<open>
  \<^verbatim>\<open>get_num_pages\<close> (lines 340 to 362): without an element of class \<^verbatim>\<open>pagination\<close>
  the answer is 1; otherwise the text of the second-to-last \<^verbatim>\<open>li\<close> below it, read as
  an integer.
\<close>

definition get_num_pages :: "node \<Rightarrow> exn + int" where
  "get_num_pages page_soup =
     (case select_one (Class ''pagination'') page_soup of
        None \<Rightarrow> Inr 1
      | Some pagination \<Rightarrow>
          bind_e (py_index (select (TagName ''li'') pagination) (- 2))
            (\<lambda>li. py_int (text_of li)))"

section \<open>The data model\<close>

text \<open>
  The dataclass \<^verbatim>\<open>Product\<close> (lines 72 to 86). A Python \<^verbatim>\<open>float\<close> is the type
  parameter \<open>'f\<close>: the model fixes nothing about floating point. A dictionary is the
  list of its items in insertion order; \<open>AList.update\<close> is \<^verbatim>\<open>d[k] = v\<close> (a present
  key keeps its place, a new key goes to the end). \<^verbatim>\<open>additional_info\<close> is declared
  \<^verbatim>\<open>dict[str, float]\<close> but holds the dictionary of prices under one key, and is typed
  here by what it holds.
\<close>

type_synonym 'f prices = "(string \<times> 'f) list"

record 'f product =
  title :: string
  description :: string
  price :: 'f
  rating :: int
  num_of_reviews :: int
  additional_info :: "(string \<times> 'f prices) list"

section \<open>The outside world\<close>

text \<open>
  What the program reaches through \<^verbatim>\<open>requests\<close>, \<^verbatim>\<open>urllib\<close>, BeautifulSoup's
  parser, \<^verbatim>\<open>float\<close> and Selenium is a parameter of the model: a record of operations
  on a world \<open>'w\<close> (the network and the browser behind the global \<^verbatim>\<open>_driver\<close>), with
  \<open>'e\<close> the type of browser elements. Each operation may raise anything
  (a call on a driver that was never set raises \<^verbatim>\<open>AttributeError\<close>, for instance) and may
  change the world.

  \<^item> \<open>session_get url page\<close> is \<^verbatim>\<open>session.get(url, headers=HEADERS, params={"page": page},
    timeout=10, verify=True)\<close>, with no \<^verbatim>\<open>params\<close> when \<open>page\<close> is \<open>None\<close>;
    the retries of the mounted adapter happen inside it.
  \<^item> \<open>html_parser\<close> is \<^verbatim>\<open>BeautifulSoup(content, features="html.parser")\<close>.
  \<^item> \<open>urljoin\<close> is \<^verbatim>\<open>urllib.parse.urljoin\<close>.
  \<^item> \<open>py_float\<close> is \<^verbatim>\<open>float\<close> on a string; \<open>None\<close> is its \<^verbatim>\<open>ValueError\<close>.
  \<^item> \<open>driver_get\<close> is \<^verbatim>\<open>get_driver().get(url)\<close>.
  \<^item> \<open>find_element_by_class\<close> is \<^verbatim>\<open>driver.find_element(By.CLASS_NAME, name)\<close>.
  \<^item> \<open>find_elements_by_tag\<close> is \<^verbatim>\<open>element.find_elements(By.TAG_NAME, name)\<close>.
  \<^item> \<open>get_disabled\<close> is the truth value of \<^verbatim>\<open>element.get_property("disabled")\<close>.
  \<^item> \<open>get_value\<close> is \<^verbatim>\<open>element.get_property("value")\<close>, a string.
  \<^item> \<open>click\<close> is \<^verbatim>\<open>element.click()\<close>, and \<open>element_text\<close> is \<^verbatim>\<open>element.text\<close>.
\<close>

record response =
  status_code :: nat
  content :: string

record ('w, 'e, 'f) env =
  session_get :: "string \<Rightarrow> int option \<Rightarrow> (response, 'w) run"
  html_parser :: "string \<Rightarrow> node"
  urljoin :: "string \<Rightarrow> string \<Rightarrow> string"
  py_float :: "string \<Rightarrow> 'f option"
  driver_get :: "string \<Rightarrow> (unit, 'w) run"
  find_element_by_class :: "string \<Rightarrow> ('e, 'w) run"
  find_elements_by_tag :: "'e \<Rightarrow> string \<Rightarrow> ('e list, 'w) run"
  get_disabled :: "'e \<Rightarrow> (bool, 'w) run"
  get_value :: "'e \<Rightarrow> (string, 'w) run"
  click :: "'e \<Rightarrow> (unit, 'w) run"
  element_text :: "'e \<Rightarrow> (string, 'w) run"

text \<open>
  \<^verbatim>\<open>response.raise_for_status()\<close>: a status from 400 to 599 raises \<^verbatim>\<open>HTTPError\<close>,
  a \<^verbatim>\<open>RequestException\<close>.
\<close>

definition raise_for_status :: "response \<Rightarrow> exn + unit" where
  "raise_for_status r =
     (if 400 \<le> status_code r \<and> status_code r < 600 then Inl RequestException else Inr ())"

text \<open>\<^verbatim>\<open>float(s)\<close> as a computation that may raise.\<close>

definition float_of :: "('w, 'e, 'f) env \<Rightarrow> string \<Rightarrow> exn + 'f" where
  "float_of env s = (case py_float env s of None \<Rightarrow> Inl ValueError | Some x \<Rightarrow> Inr x)"

definition BASE_URL :: string where
  "BASE_URL = ''https://webscraper.io/''"

definition LAPTOP_URL :: "('w, 'e, 'f) env \<Rightarrow> string" where
  "LAPTOP_URL env = urljoin env BASE_URL ''test-sites/e-commerce/static/computers/laptops/''"

section \<open>The dynamic price extractor\<close>

text \<open>
  \<^verbatim>\<open>parse_hdd_block_prices\<close> (lines 382 to 449) in three parts. \<open>hdd_buttons\<close> is lines
  404 to 417: the product's link, the navigation, the block of class \<^verbatim>\<open>swatches\<close> and
  its buttons.
\<close>

definition hdd_buttons :: "('w, 'e, 'f) env \<Rightarrow> node \<Rightarrow> ('e list, 'w) run" where
  "hdd_buttons env product_soup =
     bind_m (lift_m (getitem (select_one (Class ''title'') product_soup) ''href'')) (\<lambda>href.
     bind_m (driver_get env (urljoin env BASE_URL href)) (\<lambda>_.
     bind_m (find_element_by_class env ''swatches'') (\<lambda>swatches.
       find_elements_by_tag env swatches ''button'')))"

text \<open>
  \<open>click_and_read_price\<close> is lines 427 to 432: the click on a button, and the price
  then displayed, without its dollar sign, as a number.
\<close>

definition click_and_read_price :: "('w, 'e, 'f) env \<Rightarrow> 'e \<Rightarrow> ('f, 'w) run" where
  "click_and_read_price env button =
     bind_m (click env button) (\<lambda>_.
     bind_m (find_element_by_class env ''price'') (\<lambda>price_element.
     bind_m (element_text env price_element) (\<lambda>price_text.
       lift_m (float_of env (replace_dollar price_text)))))"

text \<open>
  \<open>read_button\<close> is the body of the loop (lines 425 to 435) for one button: \<open>None\<close> for a
  disabled button, which is skipped, and otherwise the name and the price to record.
\<close>

definition read_button :: "('w, 'e, 'f) env \<Rightarrow> 'e \<Rightarrow> ((string \<times> 'f) option, 'w) run" where
  "read_button env button =
     bind_m (get_disabled env button) (\<lambda>disabled.
       if \<not> disabled then
         bind_m (click_and_read_price env button) (\<lambda>price_value.
         bind_m (get_value env button) (\<lambda>config_name.
           unit_m (Some (config_name, price_value))))
       else unit_m None)"

text \<open>The loop over the buttons (lines 423 to 443), with the dictionary built so far.\<close>

fun hdd_loop :: "('w, 'e, 'f) env \<Rightarrow> 'e list \<Rightarrow> 'f prices \<Rightarrow> ('f prices, 'w) run" where
  "hdd_loop env [] prices = unit_m prices"
| "hdd_loop env (button # buttons) prices =
     bind_m (read_button env button) (\<lambda>r.
       case r of
         None \<Rightarrow> hdd_loop env buttons prices
       | Some (config_name, price_value) \<Rightarrow>
           hdd_loop env buttons (AList.update config_name price_value prices))"

text \<open>The body of the \<^verbatim>\<open>try\<close>, and the function: any exception gives the empty dictionary.\<close>

definition hdd_body :: "('w, 'e, 'f) env \<Rightarrow> node \<Rightarrow> ('f prices, 'w) run" where
  "hdd_body env product_soup =
     bind_m (hdd_buttons env product_soup) (\<lambda>buttons. hdd_loop env buttons [])"

definition parse_hdd_block_prices :: "('w, 'e, 'f) env \<Rightarrow> node \<Rightarrow> ('f prices, 'w) run" where
  "parse_hdd_block_prices env product_soup =
     catch_m (hdd_body env product_soup) (\<lambda>e. unit_m [])"

section \<open>The product parser\<close>

text \<open>
  The expression \<^verbatim>\<open>Product(...)\<close> of \<^verbatim>\<open>parse_single_product\<close> (lines 234 to 277):
  the arguments are evaluated in the order written, and the first that raises ends the
  evaluation.
\<close>

definition make_product :: "('w, 'e, 'f) env \<Rightarrow> node \<Rightarrow> 'f prices \<Rightarrow> exn + 'f product" where
  "make_product env product hdd_prices =
     bind_e (getitem (select_one (Class ''title'') product) ''title'') (\<lambda>t.
     bind_e (get_text (select_one (Class ''description'') product)) (\<lambda>d.
     bind_e (bind_e (get_text (select_one (Class ''price'') product))
               (\<lambda>s. float_of env (replace_dollar s))) (\<lambda>p.
     bind_e (bind_e (getitem (select_one (HasAttr ''data-rating'') product) ''data-rating'')
               py_int) (\<lambda>r.
     bind_e (bind_e (bind_e (get_text (select_one (Class ''review-count'') product))
               (\<lambda>s. py_index (py_split s) 0)) py_int) (\<lambda>n.
       Inr \<lparr>title = t, description = d, price = p, rating = r, num_of_reviews = n,
            additional_info = [(''hdd_prices'', hdd_prices)]\<rparr>)))))"

text \<open>\<^verbatim>\<open>parse_single_product\<close> (lines 226 to 277): no handler of its own.\<close>

definition parse_single_product :: "('w, 'e, 'f) env \<Rightarrow> node \<Rightarrow> ('f product, 'w) run" where
  "parse_single_product env product =
     bind_m (parse_hdd_block_prices env product) (\<lambda>hdd_prices.
       lift_m (make_product env product hdd_prices))"

text \<open>\<^verbatim>\<open>get_single_page_products\<close> (lines 365 to 379).\<close>

definition get_single_page_products :: "('w, 'e, 'f) env \<Rightarrow> node \<Rightarrow> ('f product list, 'w) run" where
  "get_single_page_products env page_soup =
     map_m (parse_single_product env) (select (Class ''card-body'') page_soup)"

section \<open>The scrape orchestrator\<close>

text \<open>
  The loop of \<^verbatim>\<open>get_laptop_page_products\<close> over the pages of \<^verbatim>\<open>range(2, num_pages + 1)\<close>
  (lines 310 to 327), with the products accumulated so far.
\<close>

fun pages_loop ::
  "('w, 'e, 'f) env \<Rightarrow> int list \<Rightarrow> 'f product list \<Rightarrow> ('f product list, 'w) run" where
  "pages_loop env [] all_products = unit_m all_products"
| "pages_loop env (page_num # page_nums) all_products =
     bind_m (session_get env (LAPTOP_URL env) (Some page_num)) (\<lambda>response.
     bind_m (lift_m (raise_for_status response)) (\<lambda>_.
     bind_m (get_single_page_products env (html_parser env (content response))) (\<lambda>page_products.
       pages_loop env page_nums (all_products @ page_products))))"

text \<open>The body of the \<^verbatim>\<open>try\<close> (lines 294 to 330).\<close>

definition laptop_body :: "('w, 'e, 'f) env \<Rightarrow> ('f product list, 'w) run" where
  "laptop_body env =
     bind_m (session_get env (LAPTOP_URL env) None) (\<lambda>response.
     bind_m (lift_m (raise_for_status response)) (\<lambda>_.
     bind_m (get_single_page_products env (html_parser env (content response))) (\<lambda>all_products.
     bind_m (lift_m (get_num_pages (html_parser env (content response)))) (\<lambda>num_pages.
       pages_loop env [2..num_pages] all_products))))"

text \<open>
  \<^verbatim>\<open>get_laptop_page_products\<close> (lines 279 to 337): both handlers return the empty list,
  the first for a \<^verbatim>\<open>RequestException\<close> and the second for any other exception.
\<close>

definition get_laptop_page_products :: "('w, 'e, 'f) env \<Rightarrow> ('f product list, 'w) run" where
  "get_laptop_page_products env =
     catch_m (laptop_body env)
       (\<lambda>e. case e of RequestException \<Rightarrow> unit_m [] | _ \<Rightarrow> unit_m [])"

section \<open>The record writer\<close>

text \<open>
  The values a cell of the table holds, and the declaration of \<^verbatim>\<open>Product\<close> as
  \<^verbatim>\<open>dataclasses.fields\<close> and \<^verbatim>\<open>dataclasses.astuple\<close> see it: the fields in the order
  declared, the name of each, and \<^verbatim>\<open>getattr\<close>.
\<close>

datatype 'f pyval =
    VStr string
  | VInt int
  | VFloat 'f
  | VDict "(string \<times> 'f pyval) list"

datatype field =
    F_title
  | F_description
  | F_price
  | F_rating
  | F_num_of_reviews
  | F_additional_info

definition fields_Product :: "field list" where
  "fields_Product =
     [F_title, F_description, F_price, F_rating, F_num_of_reviews, F_additional_info]"

fun field_name :: "field \<Rightarrow> string" where
  "field_name F_title = ''title''"
| "field_name F_description = ''description''"
| "field_name F_price = ''price''"
| "field_name F_rating = ''rating''"
| "field_name F_num_of_reviews = ''num_of_reviews''"
| "field_name F_additional_info = ''additional_info''"

fun getattr :: "'f product \<Rightarrow> field \<Rightarrow> 'f pyval" where
  "getattr p F_title = VStr (title p)"
| "getattr p F_description = VStr (description p)"
| "getattr p F_price = VFloat (price p)"
| "getattr p F_rating = VInt (rating p)"
| "getattr p F_num_of_reviews = VInt (num_of_reviews p)"
| "getattr p F_additional_info =
     VDict (map (\<lambda>(k, d). (k, VDict (map (\<lambda>(c, x). (c, VFloat x)) d))) (additional_info p))"

text \<open>\<^verbatim>\<open>PRODUCT_FIELDS = [field.name for field in fields(Product)]\<close> (line 90).\<close>

definition PRODUCT_FIELDS :: "string list" where
  "PRODUCT_FIELDS = map field_name fields_Product"

text \<open>\<^verbatim>\<open>astuple(product)\<close>: the values of the fields, in the order of \<^verbatim>\<open>fields\<close>.\<close>

definition astuple :: "'f product \<Rightarrow> 'f pyval list" where
  "astuple p = map (getattr p) fields_Product"

text \<open>
  \<^verbatim>\<open>write_products_to_csv\<close> (lines 451 to 468). A file is the list of the rows written
  to it, each row the list of its cells; how \<^verbatim>\<open>csv.writer\<close> quotes and prints a cell is
  not represented. Opening with mode \<^verbatim>\<open>"w"\<close> replaces what the file held.
\<close>

definition write_products_to_csv ::
  "'f product list \<Rightarrow> (string \<rightharpoonup> 'f pyval list list) \<Rightarrow> (string \<rightharpoonup> 'f pyval list list)" where
  "write_products_to_csv products files =
     files(''products.csv'' \<mapsto> map VStr PRODUCT_FIELDS # map astuple products)"

section \<open>Failure of a fetch\<close>

text \<open>
  A fetch of a listing page fails when \<^verbatim>\<open>session.get\<close> raises or when
  \<^verbatim>\<open>raise_for_status\<close> raises on the response.
\<close>

definition fetch_fails :: "('w, 'e, 'f) env \<Rightarrow> int option \<Rightarrow> 'w \<Rightarrow> bool" where
  "fetch_fails env page w =
     (case fst (session_get env (LAPTOP_URL env) page w) of
        Inl e \<Rightarrow> True
      | Inr r \<Rightarrow> raise_for_status r \<noteq> Inr ())"

section \<open>A small site to run the program on\<close>

text \<open>
  A concrete world for the examples. The browser shows one page at a time and the price
  it displays; an element is the block of configurations, the price, or a button with
  its value, whether it is disabled, the price text shown once it is clicked, and whether
  a click on it succeeds. Prices are whole numbers here.
\<close>

record browser =
  current_url :: string
  shown_price :: string

datatype element =
    Swatches
  | PriceElement
  | Button (button_value: string) (button_disabled: bool) (button_price: string)
      (button_clickable: bool)

definition site ::
  "(int option \<Rightarrow> exn + response) \<Rightarrow> (string \<Rightarrow> node) \<Rightarrow> (string \<Rightarrow> element list option)
     \<Rightarrow> (browser, element, int) env" where
  "site pages parser details =
     \<lparr> session_get = (\<lambda>url page. lift_m (pages page)),
       html_parser = parser,
       urljoin = (\<lambda>base rel. base @ rel),
       py_float = (\<lambda>s. case py_int s of Inl e \<Rightarrow> None | Inr n \<Rightarrow> Some n),
       driver_get = (\<lambda>url w. (Inr (), \<lparr>current_url = url, shown_price = []\<rparr>)),
       find_element_by_class = (\<lambda>c w.
         if c = ''swatches'' then
           (case details (current_url w) of
              None \<Rightarrow> (Inl WebDriverException, w)
            | Some bs \<Rightarrow> (Inr Swatches, w))
         else if c = ''price'' then (Inr PriceElement, w)
         else (Inl WebDriverException, w)),
       find_elements_by_tag = (\<lambda>el tag w.
         case el of
           Swatches \<Rightarrow>
             (case details (current_url w) of
                None \<Rightarrow> (Inl WebDriverException, w)
              | Some bs \<Rightarrow> (Inr (if tag = ''button'' then bs else []), w))
         | _ \<Rightarrow> (Inr [], w)),
       get_disabled = (\<lambda>el w.
         case el of Button v d p c \<Rightarrow> (Inr d, w) | _ \<Rightarrow> (Inr False, w)),
       get_value = (\<lambda>el w.
         case el of Button v d p c \<Rightarrow> (Inr v, w) | _ \<Rightarrow> (Inr [], w)),
       click = (\<lambda>el w.
         case el of
           Button v d p c \<Rightarrow>
             (if c then (Inr (), w\<lparr>shown_price := p\<rparr>) else (Inl WebDriverException, w))
         | _ \<Rightarrow> (Inr (), w)),
       element_text = (\<lambda>el w.
         case el of PriceElement \<Rightarrow> (Inr (shown_price w), w) | _ \<Rightarrow> (Inr [], w)) \<rparr>"

definition start :: browser where
  "start = \<lparr>current_url = [], shown_price = []\<rparr>"

text \<open>A product card and a pagination control, with the markup of the scraped site.\<close>

definition card :: "string \<Rightarrow> string \<Rightarrow> string \<Rightarrow> string \<Rightarrow> string \<Rightarrow> string \<Rightarrow> node" where
  "card href ttl desc price_text stars reviews =
     Tag ''div'' [(''class'', ''card-body'')]
       [Tag ''h4'' [(''class'', ''price float-end card-title pull-right'')]
          [NavigableString price_text],
        Tag ''h4'' []
          [Tag ''a'' [(''href'', href), (''class'', ''title''), (''title'', ttl)]
             [NavigableString ttl]],
        Tag ''p'' [(''class'', ''description card-text'')] [NavigableString desc],
        Tag ''div'' [(''class'', ''ratings'')]
          [Tag ''p'' [(''class'', ''review-count float-end'')] [NavigableString reviews],
           Tag ''p'' [(''data-rating'', stars)] []]]"

definition page_item :: "string \<Rightarrow> node" where
  "page_item s =
     Tag ''li'' [(''class'', ''page-item'')]
       [Tag ''a'' [(''class'', ''page-link'')] [NavigableString s]]"

definition pagination_control :: "string list \<Rightarrow> node" where
  "pagination_control items = Tag ''ul'' [(''class'', ''pagination'')] (map page_item items)"

definition listing :: "node list \<Rightarrow> node" where
  "listing blocks = Tag ''html'' [] [Tag ''body'' [] blocks]"

text \<open>Three listing pages of two products each; the first announces three pages.\<close>

definition page1 :: node where
  "page1 = listing
     [card ''p/1'' ''Asus'' ''15 inch'' ''$295'' ''3'' ''14 reviews'',
      card ''p/2'' ''Acer'' ''14 inch'' ''$300'' ''4'' ''2 reviews'',
      pagination_control [''1'', ''2'', ''3'', ''next'']]"

definition page2 :: node where
  "page2 = listing
     [card ''p/3'' ''Dell'' ''13 inch'' ''$410'' ''5'' ''7 reviews'',
      card ''p/4'' ''HP'' ''17 inch'' ''$420'' ''1'' ''0 reviews'']"

definition page3 :: node where
  "page3 = listing
     [card ''p/5'' ''Lenovo'' ''12 inch'' ''$510'' ''2'' ''9 reviews'',
      card ''p/6'' ''MSI'' ''16 inch'' ''$520'' ''3'' ''1 reviews'']"

definition three_pages :: "int option \<Rightarrow> exn + response" where
  "three_pages page =
     (if page = None then Inr \<lparr>status_code = 200, content = ''page1''\<rparr>
      else if page = Some 2 then Inr \<lparr>status_code = 200, content = ''page2''\<rparr>
      else if page = Some 3 then Inr \<lparr>status_code = 200, content = ''page3''\<rparr>
      else Inr \<lparr>status_code = 404, content = []\<rparr>)"

definition three_parser :: "string \<Rightarrow> node" where
  "three_parser body =
     (if body = ''page1'' then page1
      else if body = ''page2'' then page2
      else if body = ''page3'' then page3
      else listing [])"

definition no_details :: "string \<Rightarrow> element list option" where
  "no_details url = None"

definition shop :: "(browser, element, int) env" where
  "shop = site three_pages three_parser no_details"

text \<open>The same site with its second page answering 503.\<close>

definition broken_pages :: "int option \<Rightarrow> exn + response" where
  "broken_pages page =
     (if page = Some 2 then Inr \<lparr>status_code = 503, content = []\<rparr> else three_pages page)"

definition broken_shop :: "(browser, element, int) env" where
  "broken_shop = site broken_pages three_parser no_details"

text \<open>A site whose network is down.\<close>

definition offline_shop :: "(browser, element, int) env" where
  "offline_shop = site (\<lambda>page. Inl RequestException) three_parser no_details"

text \<open>Pages with a pagination control of a single entry, and with none.\<close>

definition short_page :: node where
  "short_page = listing [pagination_control [''1'']]"

definition plain_page :: node where
  "plain_page = listing [card ''p/1'' ''Asus'' ''15 inch'' ''$295'' ''3'' ''14 reviews'']"

text \<open>
  Detail pages: every product of a site shows the same buttons. \<open>one_block\<close> is a
  product card to start from.
\<close>

definition one_block :: node where
  "one_block = card ''p/1'' ''Asus'' ''15 inch'' ''$295'' ''3'' ''14 reviews''"

definition detail_site :: "element list \<Rightarrow> (browser, element, int) env" where
  "detail_site buttons = site three_pages three_parser (\<lambda>url. Some buttons)"

definition second_disabled :: "element list" where
  "second_disabled =
     [Button ''128'' False ''$1000'' True,
      Button ''256'' True ''$1100'' True,
      Button ''512'' False ''$1200'' True]"

definition second_stale :: "element list" where
  "second_stale =
     [Button ''128'' False ''$1000'' True,
      Button ''256'' False ''$1100'' False]"

definition second_unpriced :: "element list" where
  "second_unpriced =
     [Button ''128'' False ''$1000'' True,
      Button ''256'' False ''n/a'' True]"

definition same_value :: "element list" where
  "same_value =
     [Button ''128'' False ''$1000'' True,
      Button ''128'' False ''$1100'' True]"

definition disabled_twin :: "element list" where
  "disabled_twin =
     [Button ''128'' True ''$1000'' True,
      Button ''128'' False ''$1100'' True]"


















text \<open>The browser on the detail page of the first product, showing a given price.\<close>

definition on_detail :: "string \<Rightarrow> browser" where
  "on_detail shown = \<lparr>current_url = ''https://webscraper.io/p/1'', shown_price = shown\<rparr>"

text \<open>
  The product that a card of the example site gives when its detail page has no buttons,
  and the browser on the detail page of a product.
\<close>

definition laptop :: "string \<Rightarrow> string \<Rightarrow> int \<Rightarrow> int \<Rightarrow> int \<Rightarrow> int product" where
  "laptop ttl desc pr stars reviews =
     \<lparr>title = ttl, description = desc, price = pr, rating = stars, num_of_reviews = reviews,
      additional_info = [(''hdd_prices'', [])]\<rparr>"

definition on_product :: "string \<Rightarrow> browser" where
  "on_product href = \<lparr>current_url = ''https://webscraper.io/'' @ href, shown_price = []\<rparr>"

section \<open>Properties\<close>

subsection \<open>Reading integers, and the page count\<close>

lemma of_char_digit_char: "d < 10 \<Longrightarrow> (of_char (digit_char d) :: nat) = 48 + d"
  by (simp add: digit_char_def)

lemma isdigit_digit_char: "d < 10 \<Longrightarrow> isdigit (digit_char d)"
  by (simp add: isdigit_def of_char_digit_char)

lemma digit_val_digit_char: "d < 10 \<Longrightarrow> digit_val (digit_char d) = int d"
  by (simp add: digit_val_def of_char_digit_char)

lemma isdigit_not_int_space: "isdigit c \<Longrightarrow> \<not> int_space c"
  by (auto simp: isdigit_def int_space_def Let_def)

lemma isdigit_not_sign: "isdigit c \<Longrightarrow> c \<noteq> CHR ''-'' \<and> c \<noteq> CHR ''+'' \<and> c \<noteq> CHR ''_''"
  by (auto simp: isdigit_def)

lemma str_nat_digits: "\<forall>c \<in> set (str_nat n). isdigit c"
proof (induction n rule: str_nat.induct)
  case (1 n)
  show ?case
  proof (cases "n < 10")
    case True
    then show ?thesis by (subst str_nat.simps) (simp add: isdigit_digit_char)
  next
    case False
    with 1 show ?thesis by (subst str_nat.simps) (simp add: isdigit_digit_char)
  qed
qed

lemma str_nat_not_Nil: "str_nat n \<noteq> []"
  by (subst str_nat.simps) simp

lemma parse_digits_all_digits:
  "\<forall>c \<in> set ds. isdigit c \<Longrightarrow>
     parse_digits prev acc ds =
       (if ds = [] then (if prev then Some acc else None)
        else Some (foldl (\<lambda>a c. 10 * a + digit_val c) acc ds))"
  by (induction ds arbitrary: prev acc) simp_all

lemma foldl_str_nat: "foldl (\<lambda>a c. 10 * a + digit_val c) 0 (str_nat n) = int n"
proof (induction n rule: str_nat.induct)
  case (1 n)
  show ?case
  proof (cases "n < 10")
    case True
    then show ?thesis by (subst str_nat.simps) (simp add: digit_val_digit_char)
  next
    case False
    with 1 have "foldl (\<lambda>a c. 10 * a + digit_val c) 0 (str_nat (n div 10)) = int (n div 10)"
      by simp
    with False show ?thesis
      by (subst str_nat.simps) (simp add: digit_val_digit_char zdiv_int zmod_int)
  qed
qed

lemma dropWhile_none: "xs \<noteq> [] \<Longrightarrow> \<not> P (hd xs) \<Longrightarrow> dropWhile P xs = xs"
  by (cases xs) simp_all

lemma int_strip_digits: "\<forall>c \<in> set ds. isdigit c \<Longrightarrow> int_strip ds = ds"
proof (cases ds)
  case Nil
  then show ?thesis by (simp add: int_strip_def)
next
  case (Cons c cs)
  assume d: "\<forall>c \<in> set ds. isdigit c"
  have 1: "dropWhile int_space ds = ds"
    using d Cons by (simp add: isdigit_not_int_space)
  have "rev ds \<noteq> []" using Cons by simp
  moreover have "\<not> int_space (hd (rev ds))"
  proof -
    have "ds \<noteq> []" using Cons by simp
    then have "last ds \<in> set ds" by (rule last_in_set)
    then have "\<not> int_space (last ds)" using d isdigit_not_int_space by blast
    then show ?thesis by (simp add: hd_rev)
  qed
  ultimately have 2: "dropWhile int_space (rev ds) = rev ds"
    by (rule dropWhile_none)
  show ?thesis by (simp add: int_strip_def 1 2)
qed

lemma py_int_str_nat: "py_int (str_nat n) = Inr (int n)"
proof -
  have d: "\<forall>c \<in> set (str_nat n). isdigit c" by (rule str_nat_digits)
  obtain c cs where cs: "str_nat n = c # cs"
    using str_nat_not_Nil by (cases "str_nat n") auto
  have "isdigit c" using d cs by simp
  then have ns: "c \<noteq> CHR ''-''" "c \<noteq> CHR ''+''" using isdigit_not_sign by auto
  have "parse_digits False 0 (str_nat n) = Some (int n)"
    using parse_digits_all_digits [OF d] by (simp add: foldl_str_nat str_nat_not_Nil)
  then have p: "parse_digits False 0 (c # cs) = Some (int n)" by (simp only: cs)
  have "int_strip (str_nat n) = str_nat n" by (rule int_strip_digits [OF d])
  then have s: "int_strip (str_nat n) = c # cs" by (simp only: cs)
  show ?thesis
    unfolding py_int_def s using ns p by (simp del: parse_digits.simps)
qed

lemma py_index_minus2:
  "py_index (xs @ [a, b]) (- 2) = Inr a"
  by (simp add: py_index_def nth_append)

lemma py_index_short: "length xs < 2 \<Longrightarrow> py_index xs (- 2) = Inl IndexError"
  by (simp add: py_index_def)

text \<open>
  Claim C2. On a page without a pagination control \<open>get_num_pages\<close> returns 1. On a
  page whose pagination control lists the pages 1 to \<open>k\<close> (with \<open>k\<close> at least 1, after
  any leading entries such as a "previous" control) followed by one more entry, the
  "next" control, it returns \<open>k\<close>: the second-to-last entry is the one read.
\<close>

theorem get_num_pages_spec:
  "(select_one (Class ''pagination'') soup = None \<longrightarrow> get_num_pages soup = Inr 1) \<and>
   (\<forall>pg pre k nxt.
      select_one (Class ''pagination'') soup = Some pg \<and> 1 \<le> k \<and>
      map text_of (select (TagName ''li'') pg) = pre @ map str_nat [1..<Suc k] @ [nxt]
      \<longrightarrow> get_num_pages soup = Inr (int k))"
proof (intro conjI allI impI)
  assume "select_one (Class ''pagination'') soup = None"
  then show "get_num_pages soup = Inr 1" by (simp add: get_num_pages_def)
next
  fix pg pre k nxt
  assume a: "select_one (Class ''pagination'') soup = Some pg \<and> 1 \<le> k \<and>
      map text_of (select (TagName ''li'') pg) = pre @ map str_nat [1..<Suc k] @ [nxt]"
  let ?lis = "select (TagName ''li'') pg"
  from a have k: "1 \<le> k" by simp
  then have "map str_nat [1..<Suc k] = map str_nat [1..<k] @ [str_nat k]" by simp
  with a have t: "map text_of ?lis = (pre @ map str_nat [1..<k]) @ [str_nat k, nxt]" by simp
  then have "\<exists>us vs. ?lis = us @ vs \<and> pre @ map str_nat [1..<k] = map text_of us \<and>
             [str_nat k, nxt] = map text_of vs"
    by (simp only: map_eq_append_conv)
  then obtain us vs where uv: "?lis = us @ vs" "map text_of vs = [str_nat k, nxt]"
    by auto
  then obtain a' b' where ab: "vs = [a', b']" "text_of a' = str_nat k"
    by (auto simp: map_eq_Cons_conv)
  from uv ab have ys: "?lis = us @ [a', b']" by simp
  from ab have "text_of a' = str_nat k" by simp
  then show "get_num_pages soup = Inr (int k)"
    using a ys by (simp add: get_num_pages_def bind_e_def py_index_minus2 py_int_str_nat)
qed

theorem get_num_pages_spec_witness:
  "get_num_pages plain_page = Inr 1 \<and> get_num_pages page1 = Inr 3"
proof -
  let ?pg = "pagination_control [''1'', ''2'', ''3'', ''next'']"
  have a: "select_one (Class ''pagination'') plain_page = None"
    by code_simp
  have b: "select_one (Class ''pagination'') page1 = Some ?pg"
    by code_simp
  have c: "map text_of (select (TagName ''li'') ?pg) = [] @ map str_nat [1..<Suc 3] @ [''next'']"
    by code_simp
  have "get_num_pages plain_page = Inr 1"
    using get_num_pages_spec [of plain_page] a by simp
  moreover have "get_num_pages page1 = Inr (int 3)"
  proof -
    have "select_one (Class ''pagination'') page1 = Some ?pg \<and> (1::nat) \<le> 3 \<and>
          map text_of (select (TagName ''li'') ?pg) = [] @ map str_nat [1..<Suc 3] @ [''next'']"
      using b c by simp
    with get_num_pages_spec [of page1] show ?thesis by blast
  qed
  ultimately show ?thesis by simp
qed

text \<open>
  Claim C10. \<open>get_num_pages\<close> is not total: on every page whose pagination control
  holds fewer than two \<^verbatim>\<open>li\<close> entries, the index \<^verbatim>\<open>[-2]\<close> faults with
  \<^verbatim>\<open>IndexError\<close> and no integer is returned. Such pages exist (see the witness).
\<close>

theorem get_num_pages_index_fault:
  "select_one (Class ''pagination'') soup = Some pg \<Longrightarrow>
   length (select (TagName ''li'') pg) < 2 \<Longrightarrow>
   get_num_pages soup = Inl IndexError"
  by (simp add: get_num_pages_def bind_e_def py_index_short)


theorem get_num_pages_index_fault_witness:
  "select_one (Class ''pagination'') short_page = Some (pagination_control [''1'']) \<and>
   length (select (TagName ''li'') (pagination_control [''1''])) < 2 \<and>
   get_num_pages short_page = Inl IndexError"
proof -
  have a: "select_one (Class ''pagination'') short_page = Some (pagination_control [''1''])"
    by code_simp
  have b: "length (select (TagName ''li'') (pagination_control [''1''])) < 2"
    by code_simp
  from get_num_pages_index_fault [OF a b] a b show ?thesis by simp
qed

subsection \<open>Running computations\<close>

lemma bind_m_Inr: "m w = (Inr a, w1) \<Longrightarrow> bind_m m f w = f a w1"
  by (simp add: bind_m_def)

lemma bind_m_Inl: "m w = (Inl e, w1) \<Longrightarrow> bind_m m f w = (Inl e, w1)"
  by (simp add: bind_m_def)

lemma bind_m_eq_Inr:
  "bind_m m f w = (Inr b, w') \<longleftrightarrow> (\<exists>a w1. m w = (Inr a, w1) \<and> f a w1 = (Inr b, w'))"
  by (auto simp: bind_m_def split: prod.splits sum.splits)

lemma bind_m_assoc: "bind_m (bind_m m f) g = bind_m m (\<lambda>a. bind_m (f a) g)"
  by (auto simp: bind_m_def fun_eq_iff split: prod.splits sum.splits)

lemma bind_m_unit: "bind_m (unit_m a) f = f a"
  by (simp add: bind_m_def unit_m_def)

lemma unit_m_eq: "unit_m a w = (r, w') \<longleftrightarrow> r = Inr a \<and> w' = w"
  by (auto simp: unit_m_def)

lemma lift_m_eq: "lift_m x w = (r, w') \<longleftrightarrow> r = x \<and> w' = w"
  by (auto simp: lift_m_def)

lemma catch_m_Inr: "m w = (Inr a, w1) \<Longrightarrow> catch_m m h w = (Inr a, w1)"
  by (simp add: catch_m_def)

lemma catch_m_Inl: "m w = (Inl e, w1) \<Longrightarrow> catch_m m h w = h e w1"
  by (simp add: catch_m_def)

subsection \<open>The dynamic price extractor: failures\<close>

lemma hdd_loop_append:
  "hdd_loop env (xs @ ys) prices = bind_m (hdd_loop env xs prices) (hdd_loop env ys)"
proof (induction xs arbitrary: prices)
  case Nil
  then show ?case by (simp add: bind_m_unit)
next
  case (Cons x xs)
  show ?case
    by (simp add: Cons.IH bind_m_assoc split: option.split prod.split cong: option.case_cong)
       (auto simp: fun_eq_iff bind_m_def split: prod.splits sum.splits option.splits)
qed

lemma parse_hdd_block_prices_total:
  "\<exists>d w'. parse_hdd_block_prices env product w = (Inr d, w')"
  by (auto simp: parse_hdd_block_prices_def catch_m_def unit_m_def split: prod.splits sum.splits)

text \<open>
  Claim C3, as the code has it. \<^verbatim>\<open>parse_hdd_block_prices\<close> never raises. When an
  exception occurs in it, the result is the empty mapping, whatever had been collected:
  both when the exception comes before the loop (the link, the navigation, the block of
  buttons) and when it comes from a button of the loop after the buttons before it were
  read into \<open>collected\<close>.
\<close>

theorem parse_hdd_block_prices_failure:
  "(\<exists>d. fst (parse_hdd_block_prices env product w) = Inr d) \<and>
   (\<forall>e w0. hdd_buttons env product w = (Inl e, w0) \<longrightarrow>
      parse_hdd_block_prices env product w = (Inr [], w0)) \<and>
   (\<forall>pre button post w0 collected w1 e w2.
      hdd_buttons env product w = (Inr (pre @ button # post), w0) \<and>
      hdd_loop env pre [] w0 = (Inr collected, w1) \<and>
      read_button env button w1 = (Inl e, w2) \<longrightarrow>
      parse_hdd_block_prices env product w = (Inr [], w2))"
proof (intro conjI allI impI)
  show "\<exists>d. fst (parse_hdd_block_prices env product w) = Inr d"
    using parse_hdd_block_prices_total [of env product w] by auto
next
  fix e w0
  assume "hdd_buttons env product w = (Inl e, w0)"
  then have "hdd_body env product w = (Inl e, w0)"
    by (simp add: hdd_body_def bind_m_Inl)
  then show "parse_hdd_block_prices env product w = (Inr [], w0)"
    by (simp add: parse_hdd_block_prices_def catch_m_Inl unit_m_def)
next
  fix pre button post w0 collected w1 e w2
  assume a: "hdd_buttons env product w = (Inr (pre @ button # post), w0) \<and>
      hdd_loop env pre [] w0 = (Inr collected, w1) \<and>
      read_button env button w1 = (Inl e, w2)"
  have "hdd_loop env (button # post) collected w1 = (Inl e, w2)"
    using a by (simp add: bind_m_Inl)
  then have "hdd_loop env (pre @ button # post) [] w0 = (Inl e, w2)"
    using a by (simp add: hdd_loop_append bind_m_Inr)
  then have "hdd_body env product w = (Inl e, w2)"
    using a by (simp add: hdd_body_def bind_m_Inr)
  then show "parse_hdd_block_prices env product w = (Inr [], w2)"
    by (simp add: parse_hdd_block_prices_def catch_m_Inl unit_m_def)
qed

text \<open>
  The theorem at a detail page of two enabled buttons, the second of which cannot be
  clicked: the first is read, the second raises, and the result is empty.
\<close>

theorem parse_hdd_block_prices_failure_witness:
  "hdd_buttons (detail_site second_stale) one_block start =
     (Inr ([Button ''128'' False ''$1000'' True] @ Button ''256'' False ''$1100'' False # []),
      on_detail []) \<and>
   hdd_loop (detail_site second_stale) [Button ''128'' False ''$1000'' True] [] (on_detail []) =
     (Inr [(''128'', 1000)], on_detail ''$1000'') \<and>
   read_button (detail_site second_stale) (Button ''256'' False ''$1100'' False)
     (on_detail ''$1000'') = (Inl WebDriverException, on_detail ''$1000'') \<and>
   parse_hdd_block_prices (detail_site second_stale) one_block start =
     (Inr [], on_detail ''$1000'')"
proof -
  have 1: "hdd_buttons (detail_site second_stale) one_block start =
     (Inr ([Button ''128'' False ''$1000'' True] @ Button ''256'' False ''$1100'' False # []),
      on_detail [])"
    by code_simp
  have 2: "hdd_loop (detail_site second_stale) [Button ''128'' False ''$1000'' True] []
      (on_detail []) = (Inr [(''128'', 1000)], on_detail ''$1000'')"
    by code_simp
  have 3: "read_button (detail_site second_stale) (Button ''256'' False ''$1100'' False)
     (on_detail ''$1000'') = (Inl WebDriverException, on_detail ''$1000'')"
    by code_simp
  from parse_hdd_block_prices_failure [of "detail_site second_stale" one_block start] 1 2 3
  have "parse_hdd_block_prices (detail_site second_stale) one_block start =
     (Inr [], on_detail ''$1000'')"
    by blast
  with 1 2 3 show ?thesis by simp
qed

text \<open>
  Against the claim as stated, that the mapping collected before the failure is
  returned: on that page the first button had been read into the mapping
  \<open>[(''128'', 1000)]\<close> when the second raised, and the function returns the empty mapping.
\<close>

theorem parse_hdd_block_prices_keeps_nothing:
  "fst (hdd_loop (detail_site second_stale) [Button ''128'' False ''$1000'' True] []
          (on_detail [])) = Inr [(''128'', 1000)] \<and>
   fst (read_button (detail_site second_stale) (Button ''256'' False ''$1100'' False)
          (on_detail ''$1000'')) = Inl WebDriverException \<and>
   fst (parse_hdd_block_prices (detail_site second_stale) one_block start) = Inr [] \<and>
   fst (parse_hdd_block_prices (detail_site second_stale) one_block start)
     \<noteq> Inr [(''128'', 1000)]"
  by code_simp

subsection \<open>The dynamic price extractor: the entries\<close>

lemma read_button_Inr_cases:
  assumes "read_button env b w = (Inr r, w')"
  shows "(get_disabled env b w = (Inr True, w') \<and> r = None) \<or>
         (\<exists>w1 x w2 k. get_disabled env b w = (Inr False, w1) \<and>
            click_and_read_price env b w1 = (Inr x, w2) \<and>
            get_value env b w2 = (Inr k, w') \<and> r = Some (k, x))"
  using assms
  by (auto simp: read_button_def bind_m_eq_Inr unit_m_eq split: if_splits)

lemma update_fresh: "k \<notin> fst ` set al \<Longrightarrow> AList.update k v al = al @ [(k, v)]"
  by (induction al) auto

lemma hdd_loop_entries:
  assumes "hdd_loop env bs acc w = (Inr prices, w')"
    and "\<forall>b\<in>set bs. \<forall>v. fst (get_disabled env b v) = Inr (dis b)"
    and "\<forall>b\<in>set bs. \<forall>v. fst (get_value env b v) = Inr (val b)"
    and "distinct (map val (filter (\<lambda>b. \<not> dis b) bs))"
    and "\<forall>b\<in>set bs. \<not> dis b \<longrightarrow> val b \<notin> fst ` set acc"
  shows "\<exists>new. prices = acc @ new \<and>
           list_all2 (\<lambda>b (k, x). k = val b \<and> (\<exists>v v'. click_and_read_price env b v = (Inr x, v')))
             (filter (\<lambda>b. \<not> dis b) bs) new"
  using assms
proof (induction bs arbitrary: acc w)
  case Nil
  then show ?case by (simp add: unit_m_eq)
next
  case (Cons b bs)
  from Cons.prems(1) obtain r w1 where
    rb: "read_button env b w = (Inr r, w1)" and
    rest: "(case r of None \<Rightarrow> hdd_loop env bs acc
            | Some (config_name, price_value) \<Rightarrow>
                hdd_loop env bs (AList.update config_name price_value acc)) w1 = (Inr prices, w')"
    by (auto simp: bind_m_eq_Inr)
  have d: "fst (get_disabled env b w) = Inr (dis b)"
    using Cons.prems(2) by simp
  from read_button_Inr_cases [OF rb] show ?case
  proof (elim disjE conjE exE)
    assume g: "get_disabled env b w = (Inr True, w1)" and r: "r = None"
    from g d have db: "dis b" by simp
    from rest r have "hdd_loop env bs acc w1 = (Inr prices, w')" by simp
    from Cons.IH [OF this] Cons.prems(2-5) db show ?thesis by simp
  next
    fix u x w2 k
    assume g: "get_disabled env b w = (Inr False, u)"
      and c: "click_and_read_price env b u = (Inr x, w2)"
      and v: "get_value env b w2 = (Inr k, w1)"
      and r: "r = Some (k, x)"
    from g d have db: "\<not> dis b" by simp
    have "fst (get_value env b w2) = Inr (val b)"
      using Cons.prems(3) by simp
    with v have k: "k = val b" by simp
    from Cons.prems(5) db have fresh: "val b \<notin> fst ` set acc" by simp
    from rest r k have loop: "hdd_loop env bs (AList.update (val b) x acc) w1 = (Inr prices, w')"
      by simp
    have upd: "AList.update (val b) x acc = acc @ [(val b, x)]"
      using fresh by (rule update_fresh)
    have "val b \<notin> set (map val (filter (\<lambda>b. \<not> dis b) bs))"
      using Cons.prems(4) db by simp
    then have nb: "\<forall>c\<in>set bs. \<not> dis c \<longrightarrow> val c \<noteq> val b"
      by (auto simp: image_iff)
    have fresh': "\<forall>c\<in>set bs. \<not> dis c \<longrightarrow> val c \<notin> fst ` set (AList.update (val b) x acc)"
      using Cons.prems(5) nb unfolding upd by auto
    have dist: "distinct (map val (filter (\<lambda>b. \<not> dis b) bs))"
      using Cons.prems(4) by (simp split: if_splits)
    from Cons.IH [OF loop _ _ dist fresh'] Cons.prems(2,3)
    obtain new where n: "prices = AList.update (val b) x acc @ new"
      and l: "list_all2 (\<lambda>b (k, x). k = val b \<and> (\<exists>v v'. click_and_read_price env b v = (Inr x, v')))
             (filter (\<lambda>b. \<not> dis b) bs) new"
      by auto
    show ?thesis
    proof (intro exI conjI)
      show "prices = acc @ ((val b, x) # new)" using n upd by simp
      show "list_all2 (\<lambda>b (k, x). k = val b \<and> (\<exists>v v'. click_and_read_price env b v = (Inr x, v')))
             (filter (\<lambda>b. \<not> dis b) (b # bs)) ((val b, x) # new)"
        using l db c by auto
    qed
  qed
qed

text \<open>
  Claim C4, as the code has it. Suppose the buttons are found and the loop over them ends
  without an exception; suppose each button has a fixed disabled mark \<open>dis\<close> and a
  fixed value \<open>val\<close>, the values of the enabled buttons are pairwise different, and no
  disabled button has the value of an enabled one. Then the mapping returned has, in the
  order of the page, exactly one entry for each enabled button, whose key is the value of
  the button and whose price is the one read after the click on it, and no key of it is
  the value of a disabled button.
\<close>

theorem parse_hdd_block_prices_entries:
  assumes "hdd_buttons env product w = (Inr buttons, w0)"
    and "hdd_loop env buttons [] w0 = (Inr prices, w1)"
    and "\<forall>b\<in>set buttons. \<forall>v. fst (get_disabled env b v) = Inr (dis b)"
    and "\<forall>b\<in>set buttons. \<forall>v. fst (get_value env b v) = Inr (val b)"
    and "distinct (map val (filter (\<lambda>b. \<not> dis b) buttons))"
    and "\<forall>b\<in>set buttons. \<forall>c\<in>set buttons. dis b \<and> \<not> dis c \<longrightarrow> val b \<noteq> val c"
  shows "parse_hdd_block_prices env product w = (Inr prices, w1) \<and>
         list_all2 (\<lambda>b (k, x). k = val b \<and> (\<exists>v v'. click_and_read_price env b v = (Inr x, v')))
           (filter (\<lambda>b. \<not> dis b) buttons) prices \<and>
         (\<forall>b\<in>set buttons. dis b \<longrightarrow> val b \<notin> fst ` set prices)"
proof -
  have "hdd_body env product w = (Inr prices, w1)"
    using assms(1,2) by (simp add: hdd_body_def bind_m_Inr)
  then have ret: "parse_hdd_block_prices env product w = (Inr prices, w1)"
    by (simp add: parse_hdd_block_prices_def catch_m_Inr)
  from hdd_loop_entries [OF assms(2) assms(3) assms(4) assms(5)]
  have ent: "list_all2 (\<lambda>b (k, x). k = val b \<and> (\<exists>v v'. click_and_read_price env b v = (Inr x, v')))
           (filter (\<lambda>b. \<not> dis b) buttons) prices"
    by simp
  then have "map fst prices = map val (filter (\<lambda>b. \<not> dis b) buttons)"
    by (induction rule: list_all2_induct) auto
  then have "set (map fst prices) = set (map val (filter (\<lambda>b. \<not> dis b) buttons))"
    by (simp only:)
  then have "fst ` set prices = val ` {b \<in> set buttons. \<not> dis b}"
    by simp
  with assms(6) have "\<forall>b\<in>set buttons. dis b \<longrightarrow> val b \<notin> fst ` set prices"
    by auto
  with ret ent show ?thesis by simp
qed

text \<open>
  The theorem at a detail page of three buttons, the second of them disabled: entries
  for the first and the third.
\<close>

theorem parse_hdd_block_prices_entries_witness:
  "parse_hdd_block_prices (detail_site second_disabled) one_block start =
     (Inr [(''128'', 1000), (''512'', 1200)], on_detail ''$1200'') \<and>
   list_all2 (\<lambda>b (k, x). k = button_value b \<and>
       (\<exists>v v'. click_and_read_price (detail_site second_disabled) b v = (Inr x, v')))
     (filter (\<lambda>b. \<not> button_disabled b) second_disabled) [(''128'', 1000), (''512'', 1200)] \<and>
   ''256'' \<notin> fst ` set [(''128'', 1000::int), (''512'', 1200)]"
proof -
  let ?env = "detail_site second_disabled"
  have 1: "hdd_buttons ?env one_block start = (Inr second_disabled, on_detail [])"
    by code_simp
  have 2: "hdd_loop ?env second_disabled [] (on_detail []) =
      (Inr [(''128'', 1000), (''512'', 1200)], on_detail ''$1200'')"
    by code_simp
  have 3: "\<forall>b\<in>set second_disabled. \<forall>v. fst (get_disabled ?env b v) = Inr (button_disabled b)"
    by (simp add: second_disabled_def detail_site_def site_def)
  have 4: "\<forall>b\<in>set second_disabled. \<forall>v. fst (get_value ?env b v) = Inr (button_value b)"
    by (simp add: second_disabled_def detail_site_def site_def)
  have 5: "distinct (map button_value (filter (\<lambda>b. \<not> button_disabled b) second_disabled))"
    by (simp add: second_disabled_def)
  have 6: "\<forall>b\<in>set second_disabled. \<forall>c\<in>set second_disabled.
      button_disabled b \<and> \<not> button_disabled c \<longrightarrow> button_value b \<noteq> button_value c"
    by (simp add: second_disabled_def)
  have 7: "''256'' \<notin> fst ` set [(''128'', 1000::int), (''512'', 1200)]"
    by simp
  from parse_hdd_block_prices_entries [OF 1 2 3 4 5 6] 7 show ?thesis
    by blast
qed

text \<open>
  Against the claim as stated, for every detail page. With two enabled buttons, the
  first showing \<^verbatim>\<open>$1000\<close> and the second a price that is not a number, the mapping is
  empty: no entry for the first button. With two enabled buttons of the same value there
  is one entry, not two. With a disabled and an enabled button of the same value, the
  value of the disabled button is a key.
\<close>

theorem parse_hdd_block_prices_entries_counterexample:
  "fst (hdd_buttons (detail_site second_unpriced) one_block start) =
     Inr [Button ''128'' False ''$1000'' True, Button ''256'' False ''n/a'' True] \<and>
   fst (click_and_read_price (detail_site second_unpriced) (Button ''128'' False ''$1000'' True)
          (on_detail [])) = Inr 1000 \<and>
   fst (parse_hdd_block_prices (detail_site second_unpriced) one_block start) = Inr [] \<and>
   fst (hdd_buttons (detail_site same_value) one_block start) =
     Inr [Button ''128'' False ''$1000'' True, Button ''128'' False ''$1100'' True] \<and>
   fst (parse_hdd_block_prices (detail_site same_value) one_block start) =
     Inr [(''128'', 1100)] \<and>
   fst (hdd_buttons (detail_site disabled_twin) one_block start) =
     Inr [Button ''128'' True ''$1000'' True, Button ''128'' False ''$1100'' True] \<and>
   fst (parse_hdd_block_prices (detail_site disabled_twin) one_block start) =
     Inr [(''128'', 1100)]"
  by code_simp

subsection \<open>The record writer\<close>

text \<open>
  Claim C8. The file written holds a header and one row for each product. The header
  is the names of the declared fields of \<^verbatim>\<open>Product\<close> in their order, each row is the
  values of those fields of its product in the same order, and the header and every row
  have as many cells as there are declared fields.
\<close>

theorem write_products_to_csv_columns:
  "\<exists>header rows.
     write_products_to_csv products files ''products.csv'' = Some (header # rows) \<and>
     header = map (\<lambda>f. VStr (field_name f)) fields_Product \<and>
     rows = map (\<lambda>p. map (getattr p) fields_Product) products \<and>
     length header = length fields_Product \<and>
     (\<forall>row \<in> set rows. length row = length fields_Product)"
  by (auto simp: write_products_to_csv_def PRODUCT_FIELDS_def astuple_def)

text \<open>
  The theorem at a list of one product.
\<close>

theorem write_products_to_csv_columns_witness:
  "write_products_to_csv
     [\<lparr>title = ''Asus'', description = ''15 inch'', price = 295::int, rating = 3,
       num_of_reviews = 14, additional_info = [(''hdd_prices'', [(''128'', 1000)])]\<rparr>]
     Map.empty ''products.csv'' =
   Some [[VStr ''title'', VStr ''description'', VStr ''price'', VStr ''rating'',
          VStr ''num_of_reviews'', VStr ''additional_info''],
         [VStr ''Asus'', VStr ''15 inch'', VFloat 295, VInt 3, VInt 14,
          VDict [(''hdd_prices'', VDict [(''128'', VFloat 1000)])]]]"
proof -
  let ?ps = "[\<lparr>title = ''Asus'', description = ''15 inch'', price = 295::int, rating = 3,
       num_of_reviews = 14, additional_info = [(''hdd_prices'', [(''128'', 1000)])]\<rparr>]"
  from write_products_to_csv_columns [of ?ps Map.empty]
  obtain header rows where
    w: "write_products_to_csv ?ps Map.empty ''products.csv'' = Some (header # rows)" and
    h: "header = map (\<lambda>f. VStr (field_name f)) fields_Product" and
    r: "rows = map (\<lambda>p. map (getattr p) fields_Product) ?ps"
    by blast
  show ?thesis unfolding w h r by (simp add: fields_Product_def)
qed

subsection \<open>The product parser\<close>

lemma parse_single_product_run:
  "parse_hdd_block_prices env product w = (Inr hdd, w') \<Longrightarrow>
   parse_single_product env product w = (make_product env product hdd, w')"
  by (simp add: parse_single_product_def bind_m_Inr lift_m_def)



text \<open>
  Claim C7. For a block that has each element with its attribute and whose numbers
  parse (the rating and the first token of the review count within 4300 characters),
  \<^verbatim>\<open>parse_single_product\<close> returns the product made by the extraction rules:
  the title is the attribute \<^verbatim>\<open>title\<close> of the title element, the description the text
  of the description element, the price the text of the price element without dollar
  signs read as a number, the rating the attribute \<^verbatim>\<open>data-rating\<close> as an integer, the
  number of reviews the first token of the text of the review count as an integer, and
  the additional information the single key \<^verbatim>\<open>hdd_prices\<close> with the result of
  \<^verbatim>\<open>parse_hdd_block_prices\<close> on the block.
\<close>

theorem parse_single_product_valid:
  assumes "select_one (Class ''title'') product = Some (Tag tn ta tc)"
    and "map_of ta ''title'' = Some ttl"
    and "select_one (Class ''description'') product = Some d"
    and "select_one (Class ''price'') product = Some p"
    and "py_float env (replace_dollar (text_of p)) = Some pr"
    and "select_one (HasAttr ''data-rating'') product = Some (Tag rn ra rc)"
    and "map_of ra ''data-rating'' = Some stars"
    and "py_int stars = Inr r" and "length stars \<le> 4300"
    and "select_one (Class ''review-count'') product = Some rv"
    and "py_split (text_of rv) = tok # toks"
    and "py_int tok = Inr n" and "length tok \<le> 4300"
  shows "\<exists>hdd w'. parse_hdd_block_prices env product w = (Inr hdd, w') \<and>
           parse_single_product env product w =
             (Inr \<lparr>title = ttl, description = text_of d, price = pr, rating = r,
                   num_of_reviews = n, additional_info = [(''hdd_prices'', hdd)]\<rparr>, w')"
proof -
  obtain hdd w' where h: "parse_hdd_block_prices env product w = (Inr hdd, w')"
    using parse_hdd_block_prices_total [of env product w] by blast
  have "make_product env product hdd =
      Inr \<lparr>title = ttl, description = text_of d, price = pr, rating = r,
           num_of_reviews = n, additional_info = [(''hdd_prices'', hdd)]\<rparr>"
    using assms by (simp add: make_product_def bind_e_def float_of_def py_index_def)
  with parse_single_product_run [OF h] h show ?thesis by simp
qed

text \<open>
  The theorem at a card of the example site, with a detail page of two enabled buttons.
\<close>

theorem parse_single_product_valid_witness:
  "parse_single_product (detail_site second_disabled) one_block start =
     (Inr \<lparr>title = ''Asus'', description = ''15 inch'', price = 295, rating = 3,
           num_of_reviews = 14,
           additional_info = [(''hdd_prices'', [(''128'', 1000), (''512'', 1200)])]\<rparr>,
      on_detail ''$1200'')"
proof -
  let ?env = "detail_site second_disabled"
  let ?d = "Tag ''p'' [(''class'', ''description card-text'')] [NavigableString ''15 inch'']"
  let ?p = "Tag ''h4'' [(''class'', ''price float-end card-title pull-right'')]
              [NavigableString ''$295'']"
  let ?rv = "Tag ''p'' [(''class'', ''review-count float-end'')] [NavigableString ''14 reviews'']"
  have 1: "select_one (Class ''title'') one_block =
      Some (Tag ''a'' [(''href'', ''p/1''), (''class'', ''title''), (''title'', ''Asus'')]
              [NavigableString ''Asus''])"
    by code_simp
  have 2: "map_of [(''href'', ''p/1''), (''class'', ''title''), (''title'', ''Asus'')] ''title'' =
      Some ''Asus''"
    by code_simp
  have 3: "select_one (Class ''description'') one_block = Some ?d"
    by code_simp
  have 4: "select_one (Class ''price'') one_block = Some ?p"
    by code_simp
  have 5: "py_float ?env (replace_dollar (text_of ?p)) = Some 295"
    by code_simp
  have 6: "select_one (HasAttr ''data-rating'') one_block =
      Some (Tag ''p'' [(''data-rating'', ''3'')] [])"
    by code_simp
  have 7: "map_of [(''data-rating'', ''3'')] ''data-rating'' = Some ''3''"
    by code_simp
  have 8: "py_int ''3'' = Inr 3"
    by code_simp
  have len8: "length ''3'' \<le> 4300"
    by simp
  have 9: "select_one (Class ''review-count'') one_block = Some ?rv"
    by code_simp
  have 10: "py_split (text_of ?rv) = ''14'' # [''reviews'']"
    by code_simp
  have 11: "py_int ''14'' = Inr 14"
    by code_simp
  have len11: "length ''14'' \<le> 4300"
    by simp
  have 12: "parse_hdd_block_prices ?env one_block start =
      (Inr [(''128'', 1000), (''512'', 1200)], on_detail ''$1200'')"
    by code_simp
  have 13: "text_of ?d = ''15 inch''"
    by simp
  from parse_single_product_valid [OF 1 2 3 4 5 6 7 8 len8 9 10 11 len11, of start]
  show ?thesis unfolding 12 13 by simp
qed

subsection \<open>The scrape orchestrator: failures of a fetch\<close>

lemma pages_loop_append:
  "pages_loop env (xs @ ys) acc = bind_m (pages_loop env xs acc) (pages_loop env ys)"
proof (induction xs arbitrary: acc)
  case Nil
  show ?case by (simp add: bind_m_unit)
next
  case (Cons x xs)
  show ?case by (simp add: Cons.IH bind_m_assoc)
qed

lemma fetch_fails_first:
  "fetch_fails env None w \<Longrightarrow> \<exists>e w'. laptop_body env w = (Inl e, w')"
  by (auto simp: fetch_fails_def laptop_body_def bind_m_def lift_m_def
           split: sum.splits prod.splits)

lemma fetch_fails_later:
  "fetch_fails env (Some k) w \<Longrightarrow> \<exists>e w'. pages_loop env (k # rest) acc w = (Inl e, w')"
  by (auto simp: fetch_fails_def bind_m_def lift_m_def split: sum.splits prod.splits)

lemma laptop_handler:
  "laptop_body env w = (Inl e, w') \<Longrightarrow> get_laptop_page_products env w = (Inr [], w')"
  by (cases e) (simp_all add: get_laptop_page_products_def catch_m_Inl unit_m_def)

lemma laptop_no_raise: "\<exists>ps w'. get_laptop_page_products env w = (Inr ps, w')"
proof (cases "laptop_body env w")
  case (Pair r w')
  show ?thesis
  proof (cases r)
    case (Inl e)
    with Pair laptop_handler [of env w e w'] show ?thesis by blast
  next
    case (Inr ps)
    with Pair show ?thesis by (simp add: get_laptop_page_products_def catch_m_Inr)
  qed
qed

lemma upto_around: "2 \<le> k \<Longrightarrow> k \<le> n \<Longrightarrow> [2..n] = [2..k - 1] @ k # [k + 1..n]"
proof -
  assume a: "2 \<le> k" "k \<le> n"
  have "[2..n] = [2..k - 1] @ [k..n]"
    using a by (intro upto_split1) simp_all
  also have "[k..n] = k # [k + 1..n]"
    using a by (simp add: upto_rec1)
  finally show ?thesis .
qed

text \<open>
  Claim C1. \<^verbatim>\<open>get_laptop_page_products\<close> never raises. When the fetch of the first
  page fails it returns the empty list. When the first page is fetched and parsed into
  \<open>all_products\<close>, the pages 2 to \<open>k - 1\<close> are fetched and parsed too, and the fetch
  of page \<open>k\<close> (one of the pages 2 to \<open>num_pages\<close>) fails, it returns the empty
  list: the products collected from the pages before are dropped.
\<close>

theorem get_laptop_page_products_fetch_failure:
  "(\<exists>ps. fst (get_laptop_page_products env w) = Inr ps) \<and>
   (fetch_fails env None w \<longrightarrow> fst (get_laptop_page_products env w) = Inr []) \<and>
   (\<forall>r w1 all_products w2 num_pages k collected w3.
      session_get env (LAPTOP_URL env) None w = (Inr r, w1) \<and>
      raise_for_status r = Inr () \<and>
      get_single_page_products env (html_parser env (content r)) w1 = (Inr all_products, w2) \<and>
      get_num_pages (html_parser env (content r)) = Inr num_pages \<and>
      2 \<le> k \<and> k \<le> num_pages \<and>
      pages_loop env [2..k - 1] all_products w2 = (Inr collected, w3) \<and>
      fetch_fails env (Some k) w3 \<longrightarrow>
      fst (get_laptop_page_products env w) = Inr [])"
proof (intro conjI allI impI)
  show "\<exists>ps. fst (get_laptop_page_products env w) = Inr ps"
    using laptop_no_raise [of env w] by auto
next
  assume "fetch_fails env None w"
  then have "\<exists>e w'. laptop_body env w = (Inl e, w')"
    by (rule fetch_fails_first)
  then obtain e w' where "laptop_body env w = (Inl e, w')"
    by (elim exE)
  then show "fst (get_laptop_page_products env w) = Inr []"
    by (simp add: laptop_handler)
next
  fix r w1 all_products w2 num_pages k collected w3
  assume a: "session_get env (LAPTOP_URL env) None w = (Inr r, w1) \<and>
      raise_for_status r = Inr () \<and>
      get_single_page_products env (html_parser env (content r)) w1 = (Inr all_products, w2) \<and>
      get_num_pages (html_parser env (content r)) = Inr num_pages \<and>
      2 \<le> k \<and> k \<le> num_pages \<and>
      pages_loop env [2..k - 1] all_products w2 = (Inr collected, w3) \<and>
      fetch_fails env (Some k) w3"
  then have "fetch_fails env (Some k) w3"
    by simp
  then have "\<exists>e w'. pages_loop env (k # [k + 1..num_pages]) collected w3 = (Inl e, w')"
    by (rule fetch_fails_later)
  then obtain e w' where
    f: "pages_loop env (k # [k + 1..num_pages]) collected w3 = (Inl e, w')"
    by (elim exE)
  have split: "[2..num_pages] = [2..k - 1] @ k # [k + 1..num_pages]"
    using a by (intro upto_around) simp_all
  have "pages_loop env [2..num_pages] all_products w2 = (Inl e, w')"
    unfolding split pages_loop_append using a f by (simp add: bind_m_Inr)
  then have "laptop_body env w = (Inl e, w')"
    using a by (simp add: laptop_body_def bind_m_Inr lift_m_def)
  then show "fst (get_laptop_page_products env w) = Inr []"
    by (simp add: laptop_handler)
qed

text \<open>
  The theorem at a site whose network is down, and at a site whose second page answers
  503 after the two products of the first page were parsed.
\<close>

theorem get_laptop_page_products_fetch_failure_witness:
  "fst (get_laptop_page_products offline_shop start) = Inr [] \<and>
   fst (get_single_page_products broken_shop page1 start) =
     Inr [laptop ''Asus'' ''15 inch'' 295 3 14, laptop ''Acer'' ''14 inch'' 300 4 2] \<and>
   fst (get_laptop_page_products broken_shop start) = Inr []"
proof -
  let ?ps = "[laptop ''Asus'' ''15 inch'' 295 3 14, laptop ''Acer'' ''14 inch'' 300 4 2]"
  let ?r = "\<lparr>status_code = 200, content = ''page1''\<rparr>"
  have off: "fetch_fails offline_shop None start"
    by code_simp
  have 1: "session_get broken_shop (LAPTOP_URL broken_shop) None start = (Inr ?r, start)"
    by code_simp
  have 2: "raise_for_status ?r = Inr ()"
    by code_simp
  have 3: "get_single_page_products broken_shop (html_parser broken_shop (content ?r)) start =
      (Inr ?ps, on_product ''p/2'')"
    by code_simp
  have 4: "get_num_pages (html_parser broken_shop (content ?r)) = Inr 3"
    by code_simp
  have 5: "pages_loop broken_shop [2..2 - 1] ?ps (on_product ''p/2'') = (Inr ?ps, on_product ''p/2'')"
    by code_simp
  have 6: "fetch_fails broken_shop (Some 2) (on_product ''p/2'')"
    by code_simp
  have 7: "fst (get_single_page_products broken_shop page1 start) = Inr ?ps"
    by code_simp
  have a: "fst (get_laptop_page_products offline_shop start) = Inr []"
    using get_laptop_page_products_fetch_failure [of offline_shop start] off by blast
  have "session_get broken_shop (LAPTOP_URL broken_shop) None start = (Inr ?r, start) \<and>
      raise_for_status ?r = Inr () \<and>
      get_single_page_products broken_shop (html_parser broken_shop (content ?r)) start =
        (Inr ?ps, on_product ''p/2'') \<and>
      get_num_pages (html_parser broken_shop (content ?r)) = Inr 3 \<and>
      (2::int) \<le> 2 \<and> (2::int) \<le> 3 \<and>
      pages_loop broken_shop [2..2 - 1] ?ps (on_product ''p/2'') = (Inr ?ps, on_product ''p/2'') \<and>
      fetch_fails broken_shop (Some 2) (on_product ''p/2'')"
    using 1 2 3 4 5 6 by simp
  with get_laptop_page_products_fetch_failure [of broken_shop start]
  have b: "fst (get_laptop_page_products broken_shop start) = Inr []"
    by blast
  from a 7 b show ?thesis by simp
qed

subsection \<open>The scrape orchestrator: the order of the products\<close>

lemma map_m_built:
  "map_m (parse_single_product env) blks w = (Inr ps, w') \<Longrightarrow>
   list_all2 (\<lambda>p blk. \<exists>hdd. make_product env blk hdd = Inr p) ps blks"
proof (induction blks arbitrary: ps w w')
  case Nil
  then show ?case by (simp add: unit_m_eq)
next
  case (Cons b blks)
  from Cons.prems obtain y w1 ys w2 where
    y: "parse_single_product env b w = (Inr y, w1)" and
    ys: "map_m (parse_single_product env) blks w1 = (Inr ys, w2)" and
    ps: "ps = y # ys"
    by (auto simp: bind_m_eq_Inr unit_m_eq)
  from y have "\<exists>hdd. make_product env b hdd = Inr y"
    by (auto simp: parse_single_product_def bind_m_eq_Inr lift_m_eq)
  with Cons.IH [OF ys] ps show ?case by simp
qed

lemma pages_loop_order:
  "pages_loop env page_nums acc w = (Inr res, w') \<Longrightarrow>
   \<exists>soups new. res = acc @ new \<and>
     list_all2 (\<lambda>page_num soup. \<exists>u r u'.
         session_get env (LAPTOP_URL env) (Some page_num) u = (Inr r, u') \<and>
         raise_for_status r = Inr () \<and> soup = html_parser env (content r)) page_nums soups \<and>
     list_all2 (\<lambda>p blk. \<exists>hdd. make_product env blk hdd = Inr p) new
       (concat (map (select (Class ''card-body'')) soups))"
proof (induction page_nums arbitrary: acc w)
  case Nil
  then show ?case by (simp add: unit_m_eq)
next
  case (Cons n page_nums)
  from Cons.prems obtain r w1 pp w2 where
    g: "session_get env (LAPTOP_URL env) (Some n) w = (Inr r, w1)" and
    s: "raise_for_status r = Inr ()" and
    p: "get_single_page_products env (html_parser env (content r)) w1 = (Inr pp, w2)" and
    l: "pages_loop env page_nums (acc @ pp) w2 = (Inr res, w')"
    by (auto simp: bind_m_eq_Inr lift_m_eq)
  from Cons.IH [OF l] obtain soups new where
    res: "res = (acc @ pp) @ new" and
    f: "list_all2 (\<lambda>page_num soup. \<exists>u r u'.
         session_get env (LAPTOP_URL env) (Some page_num) u = (Inr r, u') \<and>
         raise_for_status r = Inr () \<and> soup = html_parser env (content r)) page_nums soups" and
    b: "list_all2 (\<lambda>p blk. \<exists>hdd. make_product env blk hdd = Inr p) new
       (concat (map (select (Class ''card-body'')) soups))"
    by blast
  have pb: "list_all2 (\<lambda>p blk. \<exists>hdd. make_product env blk hdd = Inr p) pp
      (select (Class ''card-body'') (html_parser env (content r)))"
    using p unfolding get_single_page_products_def by (rule map_m_built)
  show ?case
  proof (intro exI conjI)
    show "res = acc @ (pp @ new)" using res by simp
    show "list_all2 (\<lambda>page_num soup. \<exists>u r u'.
         session_get env (LAPTOP_URL env) (Some page_num) u = (Inr r, u') \<and>
         raise_for_status r = Inr () \<and> soup = html_parser env (content r))
         (n # page_nums) (html_parser env (content r) # soups)"
      using f g s by auto
    show "list_all2 (\<lambda>p blk. \<exists>hdd. make_product env blk hdd = Inr p) (pp @ new)
       (concat (map (select (Class ''card-body'')) (html_parser env (content r) # soups)))"
      using pb b by (simp add: list_all2_appendI)
  qed
qed

lemma laptop_body_Inr:
  "laptop_body env w = (Inr products, w') \<Longrightarrow>
   \<exists>r w1 pp w2 num_pages.
     session_get env (LAPTOP_URL env) None w = (Inr r, w1) \<and>
     raise_for_status r = Inr () \<and>
     get_single_page_products env (html_parser env (content r)) w1 = (Inr pp, w2) \<and>
     get_num_pages (html_parser env (content r)) = Inr num_pages \<and>
     pages_loop env [2..num_pages] pp w2 = (Inr products, w')"
  by (auto simp: laptop_body_def bind_m_def lift_m_def split: prod.splits sum.splits)

text \<open>
  Claim C6. When the body of \<^verbatim>\<open>get_laptop_page_products\<close> ends without an exception,
  the list returned is made, product by product and in this order, from the product
  blocks of the first page in document order, then those of page 2, and so on to the
  last page: \<open>soups\<close> are the pages fetched for the page numbers 2 to \<open>num_pages\<close>, and
  each product is the one built from the block at its position. The list is as long as
  the pages have blocks.
\<close>

theorem get_laptop_page_products_order:
  assumes "laptop_body env w = (Inr products, w')"
  shows "get_laptop_page_products env w = (Inr products, w') \<and>
    (\<exists>r w1 num_pages soups.
       session_get env (LAPTOP_URL env) None w = (Inr r, w1) \<and>
       raise_for_status r = Inr () \<and>
       get_num_pages (html_parser env (content r)) = Inr num_pages \<and>
       list_all2 (\<lambda>page_num soup. \<exists>u r u'.
           session_get env (LAPTOP_URL env) (Some page_num) u = (Inr r, u') \<and>
           raise_for_status r = Inr () \<and> soup = html_parser env (content r))
         [2..num_pages] soups \<and>
       list_all2 (\<lambda>p blk. \<exists>hdd. make_product env blk hdd = Inr p) products
         (concat (map (select (Class ''card-body'')) (html_parser env (content r) # soups))) \<and>
       length products =
         sum_list (map (\<lambda>soup. length (select (Class ''card-body'') soup))
                     (html_parser env (content r) # soups)))"
proof -
  from assms obtain r w1 pp w2 num_pages where
    g: "session_get env (LAPTOP_URL env) None w = (Inr r, w1)" and
    s: "raise_for_status r = Inr ()" and
    p: "get_single_page_products env (html_parser env (content r)) w1 = (Inr pp, w2)" and
    n: "get_num_pages (html_parser env (content r)) = Inr num_pages" and
    l: "pages_loop env [2..num_pages] pp w2 = (Inr products, w')"
    using laptop_body_Inr [of env w products w'] by blast
  from pages_loop_order [OF l] obtain soups new where
    res: "products = pp @ new" and
    f: "list_all2 (\<lambda>page_num soup. \<exists>u r u'.
         session_get env (LAPTOP_URL env) (Some page_num) u = (Inr r, u') \<and>
         raise_for_status r = Inr () \<and> soup = html_parser env (content r))
         [2..num_pages] soups" and
    b: "list_all2 (\<lambda>p blk. \<exists>hdd. make_product env blk hdd = Inr p) new
       (concat (map (select (Class ''card-body'')) soups))"
    by blast
  have pb: "list_all2 (\<lambda>p blk. \<exists>hdd. make_product env blk hdd = Inr p) pp
      (select (Class ''card-body'') (html_parser env (content r)))"
    using p unfolding get_single_page_products_def by (rule map_m_built)
  have all: "list_all2 (\<lambda>p blk. \<exists>hdd. make_product env blk hdd = Inr p) products
         (concat (map (select (Class ''card-body'')) (html_parser env (content r) # soups)))"
    using pb b res by (simp add: list_all2_appendI)
  then have "length products =
      length (concat (map (select (Class ''card-body'')) (html_parser env (content r) # soups)))"
    by (rule list_all2_lengthD)
  then have len: "length products =
         sum_list (map (\<lambda>soup. length (select (Class ''card-body'') soup))
                     (html_parser env (content r) # soups))"
    by (simp add: length_concat comp_def)
  have ret: "get_laptop_page_products env w = (Inr products, w')"
    using assms by (simp add: get_laptop_page_products_def catch_m_Inr)
  from ret g s n f all len show ?thesis by blast
qed

text \<open>
  The theorem at the example site: a first page of two blocks whose pagination control
  announces three pages, and two more pages of two blocks each, give six products, in
  the order of the pages and of the blocks within them.
\<close>

theorem get_laptop_page_products_order_witness:
  "length (select (Class ''card-body'') page1) = 2 \<and>
   length (select (Class ''card-body'') page2) = 2 \<and>
   length (select (Class ''card-body'') page3) = 2 \<and>
   get_num_pages page1 = Inr 3 \<and>
   get_laptop_page_products shop start =
     (Inr [laptop ''Asus'' ''15 inch'' 295 3 14, laptop ''Acer'' ''14 inch'' 300 4 2,
           laptop ''Dell'' ''13 inch'' 410 5 7, laptop ''HP'' ''17 inch'' 420 1 0,
           laptop ''Lenovo'' ''12 inch'' 510 2 9, laptop ''MSI'' ''16 inch'' 520 3 1],
      on_product ''p/6'')"
proof -
  have 1: "length (select (Class ''card-body'') page1) = 2"
    "length (select (Class ''card-body'') page2) = 2"
    "length (select (Class ''card-body'') page3) = 2"
    "get_num_pages page1 = Inr 3"
    by code_simp+
  have run: "laptop_body shop start =
     (Inr [laptop ''Asus'' ''15 inch'' 295 3 14, laptop ''Acer'' ''14 inch'' 300 4 2,
           laptop ''Dell'' ''13 inch'' 410 5 7, laptop ''HP'' ''17 inch'' 420 1 0,
           laptop ''Lenovo'' ''12 inch'' 510 2 9, laptop ''MSI'' ''16 inch'' 520 3 1],
      on_product ''p/6'')"
    by code_simp
  from get_laptop_page_products_order [OF run] 1 show ?thesis by simp
qed

end
